theory Spec2Isabelle
  imports Main "HOL-Library.Multiset"
begin

section \<open>JavaScript values and built-ins used by the sources\<close>

text \<open>
  Strings are lists of code units; the model covers code units below 256 (URLs, digits
  and the ASCII markers the sources test for).  Numbers that the modelled code handles
  are integers or \<open>NaN\<close>: counts, page sizes and millisecond time stamps.
\<close>

datatype js_number = Num int | NaN

text \<open>A JSON field that may hold a number or a string (\<open>any\<close> in the TypeScript sources).\<close>

datatype js_value = JNumber int | JString string

definition isNaN :: "js_number \<Rightarrow> bool" where
  "isNaN x = (case x of NaN \<Rightarrow> True | Num _ \<Rightarrow> False)"

text \<open>\<open>a > b\<close> on numbers: every comparison with \<open>NaN\<close> is false.\<close>

definition js_gt :: "js_number \<Rightarrow> js_number \<Rightarrow> bool" where
  "js_gt a b = (case (a, b) of (Num x, Num y) \<Rightarrow> y < x | _ \<Rightarrow> False)"

definition js_times :: "js_number \<Rightarrow> int \<Rightarrow> js_number" where
  "js_times a k = (case a of Num x \<Rightarrow> Num (x * k) | NaN \<Rightarrow> NaN)"

text \<open>
  \<open>Array.prototype.slice(start, end)\<close>: a negative index counts from the end, both
  indices are clamped to the array, and an absent \<open>end\<close> is the length.
\<close>

definition js_slice :: "'a list \<Rightarrow> int \<Rightarrow> int option \<Rightarrow> 'a list" where
  "js_slice xs start fin =
     (let len = int (length xs);
          k = (if start < 0 then max (len + start) 0 else min start len);
          e = (case fin of None \<Rightarrow> len
               | Some f \<Rightarrow> (if f < 0 then max (len + f) 0 else min f len))
      in take (nat (e - k)) (drop (nat k) xs))"

definition isDigit :: "char \<Rightarrow> bool" where
  "isDigit c = (c \<in> set ''0123456789'')"

definition digitValue :: "char \<Rightarrow> int" where
  "digitValue c = int (of_char c) - 48"

definition digitsToInt :: "string \<Rightarrow> int" where
  "digitsToInt ds = foldl (\<lambda>acc c. 10 * acc + digitValue c) 0 ds"

text \<open>White space that \<open>parseInt\<close> and \<open>\s\<close> skip, among the code units below 256.\<close>

definition isWhiteSpace :: "char \<Rightarrow> bool" where
  "isWhiteSpace c = (of_char c \<in> {9, 10, 11, 12, 13, 32, 160 :: nat})"

text \<open>
  \<open>parseInt(s, 10)\<close>: leading white space is dropped, one sign is read, then the
  longest run of decimal digits; no digit at all gives \<open>NaN\<close>.
\<close>

definition parseInt :: "string \<Rightarrow> js_number" where
  "parseInt s =
     (let t = dropWhile isWhiteSpace s;
          neg = (t \<noteq> [] \<and> hd t = CHR ''-'');
          u = (if t \<noteq> [] \<and> (hd t = CHR ''-'' \<or> hd t = CHR ''+'') then tl t else t);
          ds = takeWhile isDigit u
      in if ds = [] then NaN
         else Num (if neg then - digitsToInt ds else digitsToInt ds))"

text \<open>\<open>parseInt(v, 10)\<close> on a field: a number is first printed in decimal.\<close>

definition parseIntValue :: "js_value \<Rightarrow> js_number" where
  "parseIntValue v = (case v of JNumber n \<Rightarrow> Num n | JString s \<Rightarrow> parseInt s)"

text \<open>Truthiness of a field that may be absent.\<close>

definition truthyValue :: "js_value option \<Rightarrow> bool" where
  "truthyValue v = (case v of None \<Rightarrow> False
                    | Some (JNumber n) \<Rightarrow> n \<noteq> 0
                    | Some (JString s) \<Rightarrow> s \<noteq> [])"

definition truthyString :: "string option \<Rightarrow> bool" where
  "truthyString v = (case v of None \<Rightarrow> False | Some s \<Rightarrow> s \<noteq> [])"

section \<open>Like counts in \<open>parseMetadata\<close> (api/channelLiveVideos.ts, lines 627 to 671)\<close>

text \<open>
  The fields of \<open>mutation.payload.likeCountEntity\<close> that the parser reads:
  \<open>likeCountIfIndifferentNumber\<close>, \<open>expandedLikeCountIfIndifferent?.content\<close> and
  \<open>likeCountIfIndifferent?.content\<close>.
\<close>

record likeCountEntity =
  likeCountIfIndifferentNumber :: "js_value option"
  expandedLikeCountIfIndifferent :: "string option"
  likeCountIfIndifferent :: "string option"

text \<open>\<open>s.replace(/[^0-9]/g, '')\<close>\<close>

definition keepDigits :: "string \<Rightarrow> string" where
  "keepDigits s = filter isDigit s"

text \<open>\<open>/\d+K/.test(s)\<close>: some digit is directly followed by \<open>K\<close>.\<close>

fun testDigitsK :: "string \<Rightarrow> bool" where
  "testDigitsK (a # b # rest) = ((isDigit a \<and> b = CHR ''K'') \<or> testDigitsK (b # rest))"
| "testDigitsK _ = False"

text \<open>The value of the local \<open>likeCount\<close> after the three-way branch (it starts at 0).\<close>

definition entityLikeCount :: "likeCountEntity \<Rightarrow> js_number" where
  "entityLikeCount e =
     (if truthyValue (likeCountIfIndifferentNumber e)
      then parseIntValue (the (likeCountIfIndifferentNumber e))
      else if truthyString (expandedLikeCountIfIndifferent e)
      then parseInt (keepDigits (the (expandedLikeCountIfIndifferent e)))
      else if truthyString (likeCountIfIndifferent e)
      then (let abbreviated = the (likeCountIfIndifferent e)
            in if testDigitsK abbreviated
               then js_times (parseInt (keepDigits abbreviated)) 1000
               else parseInt (keepDigits abbreviated))
      else Num 0)"

text \<open>
  The loop over \<open>mutations\<close>: a mutation without \<open>payload.likeCountEntity\<close> is skipped,
  the first entity whose count is positive sets \<open>metadata.likeCount\<close> and ends the loop.
  The argument is the current \<open>metadata.likeCount\<close>.
\<close>

fun scanMutations :: "int \<Rightarrow> likeCountEntity option list \<Rightarrow> int" where
  "scanMutations cur [] = cur"
| "scanMutations cur (None # ms) = scanMutations cur ms"
| "scanMutations cur (Some e # ms) =
     (let likeCount = entityLikeCount e
      in if js_gt likeCount (Num 0) \<and> \<not> isNaN likeCount
         then (case likeCount of Num n \<Rightarrow> n | NaN \<Rightarrow> cur)
         else scanMutations cur ms)"

text \<open>
  The guarded block: it runs only while \<open>metadata.likeCount === 0\<close> and
  \<open>data?.frameworkUpdates?.entityBatchUpdate?.mutations\<close> is present.
\<close>

definition likeCountFromFrameworkUpdates ::
  "int \<Rightarrow> likeCountEntity option list option \<Rightarrow> int" where
  "likeCountFromFrameworkUpdates cur mutations =
     (case mutations of
        None \<Rightarrow> cur
      | Some ms \<Rightarrow> (if cur = 0 then scanMutations cur ms else cur))"

definition noEntity :: likeCountEntity where
  "noEntity = \<lparr> likeCountIfIndifferentNumber = None,
                expandedLikeCountIfIndifferent = None,
                likeCountIfIndifferent = None \<rparr>"

section \<open>Regular expressions\<close>

text \<open>
  The URL parsers are regular expressions.  They are embedded as syntax trees, and
  \<open>String.prototype.match\<close> as the backtracking matcher of ECMAScript: alternatives are
  tried left to right, quantifiers are greedy, an iteration that consumes nothing is
  rejected, and the first complete match in that order is the result.
\<close>

datatype rx =
    Eps
  | Chr char
  | Cls "char \<Rightarrow> bool"
  | Bol
  | Seq rx rx
  | Alt rx rx
  | Star rx
  | Grp nat rx

text \<open>
  A matcher state: the number of code units consumed so far, the rest of the input and
  the capture groups closed so far (the latest first).
\<close>

type_synonym mstate = "nat \<times> string \<times> (nat \<times> string) list"

text \<open>All ways to match, in the order in which backtracking tries them.\<close>

fun rmatch :: "rx \<Rightarrow> mstate \<Rightarrow> mstate list" where
  "rmatch Eps st = [st]"
| "rmatch (Chr c) (n, s, caps) =
     (case s of [] \<Rightarrow> [] | x # xs \<Rightarrow> if x = c then [(Suc n, xs, caps)] else [])"
| "rmatch (Cls p) (n, s, caps) =
     (case s of [] \<Rightarrow> [] | x # xs \<Rightarrow> if p x then [(Suc n, xs, caps)] else [])"
| "rmatch Bol (n, s, caps) = (if n = 0 then [(n, s, caps)] else [])"
| "rmatch (Seq a b) st = concat (map (rmatch b) (rmatch a st))"
| "rmatch (Alt a b) st = rmatch a st @ rmatch b st"
| "rmatch (Star a) (n, s, caps) =
     concat (map (\<lambda>st'. if length (fst (snd st')) < length s
                        then rmatch (Star a) st' else [])
                 (rmatch a (n, s, caps))) @ [(n, s, caps)]"
| "rmatch (Grp i a) (n, s, caps) =
     map (\<lambda>(n', s', caps'). (n', s', (i, take (n' - n) s) # caps'))
         (rmatch a (n, s, caps))"

text \<open>\<open>a?\<close>, \<open>a+\<close>, a literal string and \<open>a{k}\<close>.\<close>

definition Opt :: "rx \<Rightarrow> rx" where
  "Opt a = Alt a Eps"

definition Plus :: "rx \<Rightarrow> rx" where
  "Plus a = Seq a (Star a)"

fun Lit :: "string \<Rightarrow> rx" where
  "Lit [] = Eps"
| "Lit (c # cs) = Seq (Chr c) (Lit cs)"

fun Times :: "nat \<Rightarrow> rx \<Rightarrow> rx" where
  "Times 0 a = Eps"
| "Times (Suc k) a = Seq a (Times k a)"

text \<open>The match is searched from every start position, leftmost first.\<close>

fun firstMatch :: "rx \<Rightarrow> nat \<Rightarrow> string \<Rightarrow> mstate option" where
  "firstMatch r n s =
     (case rmatch r (n, s, []) of
        m # _ \<Rightarrow> Some m
      | [] \<Rightarrow> (case s of [] \<Rightarrow> None | _ # xs \<Rightarrow> firstMatch r (Suc n) xs))"

text \<open>\<open>s.match(r)\<close>: \<open>None\<close> is \<open>null\<close>, otherwise the capture groups by number.\<close>

definition js_match :: "rx \<Rightarrow> string \<Rightarrow> (nat \<rightharpoonup> string) option" where
  "js_match r s = map_option (\<lambda>(n, rest, caps). map_of caps) (firstMatch r 0 s)"

definition js_test :: "rx \<Rightarrow> string \<Rightarrow> bool" where
  "js_test r s = (firstMatch r 0 s \<noteq> None)"

text \<open>The character classes of the sources: \<open>.\<close>, \<open>\w\<close>, \<open>[\w-]\<close>, \<open>[^#&?]\<close>, \<open>[^\/]\<close>,
  \<open>[?&]\<close> and \<open>[^"&?\/\s]\<close>.\<close>

definition dot :: "char \<Rightarrow> bool" where
  "dot c = (c \<noteq> CHR 0x0A \<and> c \<noteq> CHR 0x0D)"

definition wordChar :: "char \<Rightarrow> bool" where
  "wordChar c =
     (c \<in> set ''abcdefghijklmnopqrstuvwxyzABCDEFGHIJKLMNOPQRSTUVWXYZ0123456789_'')"

definition wordOrDash :: "char \<Rightarrow> bool" where
  "wordOrDash c = (wordChar c \<or> c = CHR ''-'')"

definition notHashAmpQuery :: "char \<Rightarrow> bool" where
  "notHashAmpQuery c = (c \<notin> set ''#&?'')"

definition notSlash :: "char \<Rightarrow> bool" where
  "notSlash c = (c \<noteq> CHR ''/'')"

definition queryOrAmp :: "char \<Rightarrow> bool" where
  "queryOrAmp c = (c \<in> set ''?&'')"

definition idChar :: "char \<Rightarrow> bool" where
  "idChar c = (c \<notin> set [CHR 0x22, CHR ''&'', CHR ''?'', CHR ''/''] \<and> \<not> isWhiteSpace c)"

section \<open>URL and ID parser\<close>

text \<open>
  utils/directTokenExtractor.ts and .js, and the private copy in unnamed/part_006, the cursor-based
  \<open>getLiveChat\<close> module:
  \<^verbatim>\<open>/^.*((youtu.be\/)|(v\/)|(\/u\/\w\/)|(embed\/)|(watch\?))\??v?=?([^#&?]*).*/\<close>
\<close>

definition videoIdRegExp :: rx where
  "videoIdRegExp =
     Seq Bol (Seq (Star (Cls dot))
     (Seq (Grp 1
         (Alt (Grp 2 (Seq (Lit ''youtu'') (Seq (Cls dot) (Lit ''be/''))))
         (Alt (Grp 3 (Lit ''v/''))
         (Alt (Grp 4 (Seq (Lit ''/u/'') (Seq (Cls wordChar) (Lit ''/''))))
         (Alt (Grp 5 (Lit ''embed/''))
              (Grp 6 (Lit ''watch?'')))))))
     (Seq (Opt (Chr CHR ''?''))
     (Seq (Opt (Chr CHR ''v''))
     (Seq (Opt (Chr CHR ''=''))
     (Seq (Grp 7 (Star (Cls notHashAmpQuery)))
          (Star (Cls dot))))))))"

text \<open>\<open>return (match && match[7].length === 11) ? match[7] : null\<close>\<close>

definition extractVideoId :: "string \<Rightarrow> string option" where
  "extractVideoId url =
     (case js_match videoIdRegExp url of
        None \<Rightarrow> None
      | Some g \<Rightarrow> (case g 7 of
                     None \<Rightarrow> None
                   | Some v \<Rightarrow> if length v = 11 then Some v else None))"

text \<open>
  scraping/puppeteer.ts:
  \<^verbatim>\<open>/(?:youtube\.com\/(?:[^\/]+\/.+\/|(?:v|e(?:mbed)?)\/|.*[?&]v=)|youtu\.be\/)([^"&?\/\s]{11})/\<close>
\<close>

definition videoIdRegex_puppeteer :: rx where
  "videoIdRegex_puppeteer =
     Seq (Alt (Seq (Lit ''youtube.com/'')
                 (Alt (Seq (Plus (Cls notSlash))
                           (Seq (Chr CHR ''/'') (Seq (Plus (Cls dot)) (Chr CHR ''/''))))
                 (Alt (Seq (Alt (Chr CHR ''v'') (Seq (Chr CHR ''e'') (Opt (Lit ''mbed''))))
                           (Chr CHR ''/''))
                      (Seq (Star (Cls dot)) (Seq (Cls queryOrAmp) (Lit ''v=''))))))
              (Lit ''youtu.be/''))
         (Grp 1 (Times 11 (Cls idChar)))"

text \<open>\<open>return match ? match[1] : null\<close>\<close>

definition extractVideoId_puppeteer :: "string \<Rightarrow> string option" where
  "extractVideoId_puppeteer url =
     (case js_match videoIdRegex_puppeteer url of
        None \<Rightarrow> None
      | Some g \<Rightarrow> g 1)"

text \<open>\<open>s.startsWith(p)\<close> and \<open>s.includes(p)\<close> on strings.\<close>

fun startsWith :: "string \<Rightarrow> string \<Rightarrow> bool" where
  "startsWith s [] = True"
| "startsWith [] (p # ps) = False"
| "startsWith (c # cs) (p # ps) = (c = p \<and> startsWith cs ps)"

fun js_includes :: "string \<Rightarrow> string \<Rightarrow> bool" where
  "js_includes [] p = (p = [])"
| "js_includes (c # cs) p = (startsWith (c # cs) p \<or> js_includes cs p)"

text \<open>
  \<open>isValidYouTubeUrl\<close> of utils/directTokenExtractor: a non-empty URL that contains one
  of three markers and from which \<open>extractVideoId\<close> gets an ID.
\<close>

definition isValidYouTubeUrl :: "string \<Rightarrow> bool" where
  "isValidYouTubeUrl url =
     (url \<noteq> [] \<and>
      (js_includes url ''youtube.com/watch'' \<or> js_includes url ''youtu.be/''
       \<or> js_includes url ''youtube.com/live/'') \<and>
      extractVideoId url \<noteq> None)"

text \<open>
  \<open>isValidYouTubeUrl\<close> of scraping/puppeteer.ts:
  \<^verbatim>\<open>/^https?:\/\/(?:www\.)?youtube\.com\/watch\?v=[\w-]{11}/\<close> and
  \<^verbatim>\<open>/^https?:\/\/(?:www\.)?youtu.be\/[\w-]{11}/\<close>
\<close>

definition watchPattern :: rx where
  "watchPattern =
     Seq Bol (Seq (Lit ''http'') (Seq (Opt (Chr CHR ''s'')) (Seq (Lit ''://'')
     (Seq (Opt (Lit ''www.'')) (Seq (Lit ''youtube.com/watch?v='')
          (Times 11 (Cls wordOrDash)))))))"

definition shortPattern :: rx where
  "shortPattern =
     Seq Bol (Seq (Lit ''http'') (Seq (Opt (Chr CHR ''s'')) (Seq (Lit ''://'')
     (Seq (Opt (Lit ''www.'')) (Seq (Lit ''youtu'') (Seq (Cls dot) (Seq (Lit ''be/'')
          (Times 11 (Cls wordOrDash)))))))))"

definition isValidYouTubeUrl_puppeteer :: "string \<Rightarrow> bool" where
  "isValidYouTubeUrl_puppeteer url = (js_test watchPattern url \<or> js_test shortPattern url)"

section \<open>Message normalizer: author role from badges\<close>

datatype user_type = Regular | Member | Moderator | Owner

text \<open>
  What the normalizers read of \<open>badge.liveChatAuthorBadgeRenderer\<close>: \<open>tooltip\<close>,
  \<open>accessibility?.accessibilityData?.label\<close> and \<open>icon.iconType\<close>.  A badge without a
  renderer is \<open>None\<close>.
\<close>

record badgeRenderer =
  tooltip :: "string option"
  accessibilityLabel :: "string option"
  iconType :: "string option"

text \<open>\<open>s.toLowerCase()\<close> on code units below 256.\<close>

definition toLowerChar :: "char \<Rightarrow> char" where
  "toLowerChar c =
     (let n = (of_char c :: nat)
      in if (65 \<le> n \<and> n \<le> 90) \<or> (192 \<le> n \<and> n \<le> 222 \<and> n \<noteq> 215)
         then char_of (n + 32) else c)"

definition toLowerCase :: "string \<Rightarrow> string" where
  "toLowerCase s = map toLowerChar s"

text \<open>\<open>badgeRenderer.tooltip || badgeRenderer.accessibility?.accessibilityData?.label || ''\<close>\<close>

definition badgeText :: "badgeRenderer \<Rightarrow> string" where
  "badgeText r =
     (if truthyString (tooltip r) then the (tooltip r)
      else if truthyString (accessibilityLabel r) then the (accessibilityLabel r)
      else [])"

text \<open>
  The badge loop of \<open>formatChatMessages\<close> in unnamed/part_004: an owner badge
  ends the loop, a moderator or member badge assigns and goes on.
\<close>

fun scanBadges :: "user_type \<Rightarrow> badgeRenderer option list \<Rightarrow> user_type" where
  "scanBadges ut [] = ut"
| "scanBadges ut (None # bs) = scanBadges ut bs"
| "scanBadges ut (Some r # bs) =
     (let t = toLowerCase (badgeText r)
      in if js_includes t ''owner'' then Owner
         else if js_includes t ''moderator'' then scanBadges Moderator bs
         else if js_includes t ''member'' then scanBadges Member bs
         else scanBadges ut bs)"

text \<open>\<open>userType\<close> starts as regular; the loop runs when \<open>authorBadges\<close> is a non-empty array.\<close>

definition formatChatMessages_userType :: "badgeRenderer option list option \<Rightarrow> user_type" where
  "formatChatMessages_userType authorBadges =
     (case authorBadges of
        None \<Rightarrow> Regular
      | Some bs \<Rightarrow> (if 0 < length bs then scanBadges Regular bs else Regular))"

text \<open>
  The badge loop of \<open>extractAuthorInfo\<close> in utils/formatters.js: every badge with an
  \<open>icon.iconType\<close> of MODERATOR, OWNER or MEMBER assigns; there is no \<open>break\<close>.
\<close>

fun scanIconBadges :: "user_type \<Rightarrow> badgeRenderer option list \<Rightarrow> user_type" where
  "scanIconBadges ut [] = ut"
| "scanIconBadges ut (None # bs) = scanIconBadges ut bs"
| "scanIconBadges ut (Some r # bs) =
     (if truthyString (iconType r)
      then (let t = the (iconType r)
            in if t = ''MODERATOR'' then scanIconBadges Moderator bs
               else if t = ''OWNER'' then scanIconBadges Owner bs
               else if t = ''MEMBER'' then scanIconBadges Member bs
               else scanIconBadges ut bs)
      else scanIconBadges ut bs)"

definition extractAuthorInfo_userType :: "badgeRenderer option list option \<Rightarrow> user_type" where
  "extractAuthorInfo_userType authorBadges =
     (case authorBadges of None \<Rightarrow> Regular | Some bs \<Rightarrow> scanIconBadges Regular bs)"

definition tooltipBadge :: "string \<Rightarrow> badgeRenderer option" where
  "tooltipBadge t = Some \<lparr> tooltip = Some t, accessibilityLabel = None, iconType = None \<rparr>"

definition iconBadge :: "string \<Rightarrow> badgeRenderer option" where
  "iconBadge t = Some \<lparr> tooltip = None, accessibilityLabel = None, iconType = Some t \<rparr>"

section \<open>Chat poller: \<open>fetchLiveChatMessages\<close> (utils/directTokenExtractor.js)\<close>

text \<open>
  The upstream answer, as far as the function looks at it.  An action is \<open>Some item\<close>
  when \<open>action.addChatItemAction.item\<close> is there.  \<open>'i\<close> is the raw item.
\<close>

record continuationData =
  invalidationContinuationData :: "string option"
  timedContinuationData :: "string option"
  liveChatReplayContinuationData :: "string option"

record 'i liveChatContinuation =
  actions :: "'i option list option"
  continuations :: "continuationData list option"

datatype 'i chat_response =
    RequestFailed
  | NoContinuationContents
  | NoLiveChatContinuation
  | LiveChat "'i liveChatContinuation"





section \<open>Token extractor and its cache\<close>

text \<open>
  What the scraping steps of \<open>extractYouTubeTokens\<close> get from a fetched page: the three
  \<open>ytcfgData\<close> entries, the token found in \<open>ytInitialData\<close> (empty when none), the first
  group of \<^verbatim>\<open>/"continuation":"([^"]+)"/\<close> on the raw HTML, the title and the channel name.
\<close>

record scraped_page =
  page_rawHtml :: string
  cfg_apiKey :: "string option"
  cfg_clientVersion :: "string option"
  cfg_visitorData :: "string option"
  initialDataToken :: string
  continuationMatch :: "string option"
  page_title :: string
  page_channelName :: string

datatype page_fetch = FetchFailed string | Fetched scraped_page

text \<open>Cache expiration time (15 minutes).\<close>

definition TOKEN_CACHE_EXPIRATION :: int where
  "TOKEN_CACHE_EXPIRATION = 15 * 60 * 1000"

text \<open>\<open>x || d\<close> for a string that may be absent.\<close>

definition orElse :: "string option \<Rightarrow> string \<Rightarrow> string" where
  "orElse x d = (if truthyString x then the x else d)"

text \<open>utils/directTokenExtractor.js: the result record.\<close>

record tokens_js =
  tk_apiKey :: string
  tk_clientVersion :: string
  tk_visitorData :: string
  tk_continuation :: string
  tk_rawHtml :: string
  tk_timestamp :: int
  tk_title :: string
  tk_channelName :: string

text \<open>
  \<open>extractYouTubeTokens\<close> of utils/directTokenExtractor.js.  \<open>now\<close> is the clock at the
  cache check, \<open>stamp\<close> the clock when the result is built.  \<open>None\<close> is \<open>null\<close>.
\<close>

definition extractYouTubeTokens_js ::
  "(string \<rightharpoonup> tokens_js) \<Rightarrow> int \<Rightarrow> int \<Rightarrow> string \<Rightarrow> page_fetch
     \<Rightarrow> tokens_js option \<times> (string \<rightharpoonup> tokens_js)" where
  "extractYouTubeTokens_js tokenCache now stamp videoUrl fetch =
     (let cachedData = tokenCache videoUrl
      in if cachedData \<noteq> None \<and> now - tk_timestamp (the cachedData) < TOKEN_CACHE_EXPIRATION
         then (cachedData, tokenCache)
         else (case fetch of
                 FetchFailed e \<Rightarrow> (None, tokenCache)
               | Fetched p \<Rightarrow>
                   if initialDataToken p = [] then (None, tokenCache)
                   else (let result = \<lparr> tk_apiKey = orElse (cfg_apiKey p) [],
                                        tk_clientVersion = orElse (cfg_clientVersion p) ''2.0'',
                                        tk_visitorData = orElse (cfg_visitorData p) [],
                                        tk_continuation = initialDataToken p,
                                        tk_rawHtml = page_rawHtml p,
                                        tk_timestamp = stamp,
                                        tk_title = page_title p,
                                        tk_channelName = page_channelName p \<rparr>
                         in (Some result, tokenCache(videoUrl \<mapsto> result)))))"

text \<open>utils/directTokenExtractor.ts and scraping/puppeteer.ts: the result record.\<close>

record tokens_ts =
  apiKey :: string
  clientVersion :: string
  visitorData :: string
  continuationToken :: string
  rawHtml :: string
  tokenTimestamp :: int

text \<open>The object literal \<open>result\<close> of both TypeScript extractors.\<close>

definition tokenResult :: "scraped_page \<Rightarrow> string \<Rightarrow> int \<Rightarrow> tokens_ts" where
  "tokenResult p liveChatToken stamp =
     \<lparr> apiKey = orElse (cfg_apiKey p) [],
       clientVersion = orElse (cfg_clientVersion p) [],
       visitorData = orElse (cfg_visitorData p) [],
       continuationToken = liveChatToken,
       rawHtml = page_rawHtml p,
       tokenTimestamp = stamp \<rparr>"

text \<open>
  \<open>extractYouTubeTokens\<close> of utils/directTokenExtractor.ts.  An empty token from
  \<open>ytInitialData\<close> falls back to the raw-HTML match; the result is then stored.
  \<open>Inl\<close> is the error thrown.
\<close>

definition extractYouTubeTokens_ts ::
  "(string \<rightharpoonup> tokens_ts) \<Rightarrow> int \<Rightarrow> int \<Rightarrow> string \<Rightarrow> page_fetch
     \<Rightarrow> (string + tokens_ts) \<times> (string \<rightharpoonup> tokens_ts)" where
  "extractYouTubeTokens_ts tokenCache now stamp videoUrl fetch =
     (let cachedData = tokenCache videoUrl
      in if cachedData \<noteq> None \<and> now - tokenTimestamp (the cachedData) < TOKEN_CACHE_EXPIRATION
         then (Inr (the cachedData), tokenCache)
         else (case fetch of
                 FetchFailed e \<Rightarrow>
                   (Inl (''Failed to extract tokens from YouTube: '' @ e), tokenCache)
               | Fetched p \<Rightarrow>
                   (let liveChatToken =
                          (if initialDataToken p = [] \<and> truthyString (continuationMatch p)
                           then the (continuationMatch p) else initialDataToken p);
                        result = tokenResult p liveChatToken stamp
                    in (Inr result, tokenCache(videoUrl \<mapsto> result)))))"

text \<open>
  \<open>extractYouTubeTokens\<close> of scraping/puppeteer.ts.  \<open>otherPages\<close> says that no tab is
  open for this URL while other tabs are: the function then waits and returns whatever
  the cache holds for the URL.  \<open>Fetched p\<close> is a page that loaded and showed the chat
  frame, \<open>initialDataToken p\<close> the token evaluated in it (empty when none).
\<close>

definition extractYouTubeTokens_puppeteer ::
  "(string \<rightharpoonup> tokens_ts) \<Rightarrow> int \<Rightarrow> int \<Rightarrow> bool \<Rightarrow> string \<Rightarrow> page_fetch
     \<Rightarrow> (string + tokens_ts) \<times> (string \<rightharpoonup> tokens_ts)" where
  "extractYouTubeTokens_puppeteer tokenCache now stamp otherPages videoUrl fetch =
     (let cachedData = tokenCache videoUrl
      in if cachedData \<noteq> None \<and> now - tokenTimestamp (the cachedData) < TOKEN_CACHE_EXPIRATION
         then (Inr (the cachedData), tokenCache)
         else if otherPages \<and> cachedData \<noteq> None
         then (Inr (the cachedData), tokenCache)
         else (case fetch of
                 FetchFailed e \<Rightarrow>
                   (Inl (''Failed to extract tokens from YouTube: '' @ e), tokenCache)
               | Fetched p \<Rightarrow>
                   (let result = tokenResult p (initialDataToken p) stamp
                    in (Inr result, tokenCache(videoUrl \<mapsto> result)))))"

text \<open>A page of a video without live chat: no token anywhere.\<close>

definition pageWithoutChat :: scraped_page where
  "pageWithoutChat =
     \<lparr> page_rawHtml = ''<html><title>Video - YouTube</title></html>'',
       cfg_apiKey = Some ''KEY'', cfg_clientVersion = Some ''2.2024'',
       cfg_visitorData = Some ''VISITOR'', initialDataToken = [],
       continuationMatch = None, page_title = ''Video'', page_channelName = [] \<rparr>"

section \<open>Aggregation layer: chat messages and the message cache\<close>

text \<open>
  A normalized message.  \<open>timestamp\<close> stands for the ISO-8601 string of the source by
  its value \<open>new Date(timestamp).getTime()\<close> in milliseconds: the normalizers build
  the string with \<open>toISOString\<close>, so it always parses, and the code compares time
  stamps only through \<open>getTime\<close>.  Profile image and emoji list play no part in the
  aggregation and are left out.
\<close>

record chat_message =
  msg_id :: string
  message :: string
  authorName :: string
  authorChannelId :: string
  timestamp :: int
  userType :: user_type
  sourceVideoUrl :: string
  sourceVideoId :: string

record cache_entry =
  messages :: "chat_message list"
  lastFetched :: int
  continuation :: "string option"

type_synonym message_cache = "string \<rightharpoonup> cache_entry"

text \<open>Message cache expiration (5 minutes) and the cap per video, in both modules.\<close>

definition CACHE_EXPIRATION :: int where
  "CACHE_EXPIRATION = 5 * 60 * 1000"

definition MAX_CACHED_MESSAGES :: nat where
  "MAX_CACHED_MESSAGES = 2000"

text \<open>
  \<open>xs.sort((a, b) => new Date(a.timestamp).getTime() - new Date(b.timestamp).getTime())\<close>:
  the sort of the engine is stable, as insertion sort by key is.
\<close>

definition sortByTimestamp :: "chat_message list \<Rightarrow> chat_message list" where
  "sortByTimestamp ms = sort_key timestamp ms"

text \<open>The request options; \<open>opt_after\<close> is \<open>None\<close> when \<open>after\<close> is absent or empty,
  otherwise the value of \<open>new Date(after).getTime()\<close>.\<close>

record live_chat_options =
  opt_urls :: "string list"
  opt_pageSize :: "int option"
  opt_after :: "js_number option"
  opt_messageIds :: "string list option"

subsection \<open>The cursor-based \<open>getLiveChat\<close> (unnamed/part_006)\<close>

text \<open>Clean up expired cache entries: the \<open>for ... in\<close> loop with \<open>delete\<close>.\<close>

definition cleanupExpired :: "int \<Rightarrow> message_cache \<Rightarrow> message_cache" where
  "cleanupExpired now cache =
     (\<lambda>cachedVideoId.
        case cache cachedVideoId of
          None \<Rightarrow> None
        | Some e \<Rightarrow> if now - lastFetched e > CACHE_EXPIRATION then None else Some e)"

text \<open>Merge with existing cache: the new value of \<open>messageCache[videoId].messages\<close>.\<close>

definition uniqueNewMessages :: "chat_message list \<Rightarrow> chat_message list \<Rightarrow> chat_message list" where
  "uniqueNewMessages existing newMessages =
     filter (\<lambda>msg. msg_id msg \<notin> set (map msg_id existing)) newMessages"

definition mergeMessages :: "chat_message list \<Rightarrow> chat_message list \<Rightarrow> chat_message list" where
  "mergeMessages existing newMessages =
     (let combined = sortByTimestamp (existing @ uniqueNewMessages existing newMessages)
      in if length combined > MAX_CACHED_MESSAGES
         then js_slice combined (- int MAX_CACHED_MESSAGES) None
         else combined)"

text \<open>Update cache: a first entry takes the batch as it is, a later one merges.\<close>

definition updateCache ::
  "message_cache \<Rightarrow> string \<Rightarrow> chat_message list \<Rightarrow> int \<Rightarrow> string option \<Rightarrow> message_cache" where
  "updateCache cache videoId newMessages now cont =
     (case cache videoId of
        None \<Rightarrow>
          cache(videoId \<mapsto> \<lparr> messages = newMessages, lastFetched = now, continuation = cont \<rparr>)
      | Some e \<Rightarrow>
          cache(videoId \<mapsto> \<lparr> messages = mergeMessages (messages e) newMessages,
                              lastFetched = now, continuation = cont \<rparr>))"

text \<open>
  What a URL's callback meets: the clock it reads, and the outcome of token extraction,
  chat fetch and formatting, which is either the error thrown or the formatted batch
  with \<open>chatResult.continuation || undefined\<close>.
\<close>

record url_env =
  clock :: int
  poll :: "string + (chat_message list \<times> string option)"

text \<open>
  The callbacks of \<open>validUrls.map(async ...)\<close> run in two stretches.  Each runs up to its
  first \<open>await\<close> while \<open>map\<close> goes through the URLs: it extracts the ID, cleans the cache
  and decides between the cached list and a fresh fetch.
\<close>

datatype decision = NoId | Cached "chat_message list" | Fresh string int

fun syncPhase ::
  "(string \<Rightarrow> url_env) \<Rightarrow> string list \<Rightarrow> message_cache
     \<Rightarrow> (string \<times> decision) list \<times> message_cache" where
  "syncPhase env [] cache = ([], cache)"
| "syncPhase env (url # rest) cache =
     (case extractVideoId url of
        None \<Rightarrow>
          (let (ds, cache') = syncPhase env rest cache in ((url, NoId) # ds, cache'))
      | Some videoId \<Rightarrow>
          (let now = clock (env url);
               cache1 = cleanupExpired now cache;
               d = (case cache1 videoId of
                      None \<Rightarrow> Fresh videoId now
                    | Some cachedData \<Rightarrow>
                        if now - lastFetched cachedData > 10000 then Fresh videoId now
                        else Cached (messages cachedData));
               (ds, cache') = syncPhase env rest cache1
           in ((url, d) # ds, cache')))"

text \<open>
  The rest of each fresh callback runs when its requests return; the model lets them
  return in URL order.  The result is the list each promise resolves to, the errors
  pushed, and the cache.
\<close>

fun asyncPhase ::
  "(string \<Rightarrow> url_env) \<Rightarrow> (string \<times> decision) list \<Rightarrow> message_cache
     \<Rightarrow> chat_message list list \<times> string list \<times> message_cache" where
  "asyncPhase env [] cache = ([], [], cache)"
| "asyncPhase env ((url, NoId) # rest) cache =
     (let (rs, es, cache') = asyncPhase env rest cache in ([] # rs, es, cache'))"
| "asyncPhase env ((url, Cached ms) # rest) cache =
     (let (rs, es, cache') = asyncPhase env rest cache in (ms # rs, es, cache'))"
| "asyncPhase env ((url, Fresh videoId now) # rest) cache =
     (case poll (env url) of
        Inl err \<Rightarrow>
          (let (rs, es, cache') = asyncPhase env rest cache
           in ([] # rs, (''Failed to fetch chat from '' @ url @ '': '' @ err) # es, cache'))
      | Inr (newMessages, cont) \<Rightarrow>
          (let cache1 = updateCache cache videoId newMessages now cont;
               (rs, es, cache') = asyncPhase env rest cache1
           in ((case cache1 videoId of None \<Rightarrow> [] | Some e \<Rightarrow> messages e) # rs, es, cache')))"

definition noIdErrors :: "(string \<times> decision) list \<Rightarrow> string list" where
  "noIdErrors ds =
     concat (map (\<lambda>(url, d). case d of NoId \<Rightarrow> [''Could not extract video ID from '' @ url]
                                    | _ \<Rightarrow> []) ds)"

text \<open>The two filters and the sort that follow \<open>chatResults.flat()\<close>.\<close>

definition filterMessages_cursor ::
  "string list \<Rightarrow> js_number option \<Rightarrow> chat_message list \<Rightarrow> chat_message list" where
  "filterMessages_cursor ids afterTime allMessages =
     (let a1 = (if length ids > 0
                then filter (\<lambda>msg. msg_id msg \<notin> set ids) allMessages
                else allMessages);
          a2 = (case afterTime of
                  None \<Rightarrow> a1
                | Some t \<Rightarrow> filter (\<lambda>msg. js_gt (Num (timestamp msg)) t) a1)
      in sortByTimestamp a2)"

record cursor_response =
  res_messages :: "chat_message list"
  res_errors :: "string list"
  res_hasMore :: bool
  res_lastTimestamp :: "int option"

text \<open>Apply pagination if needed, and the timestamp of the last message returned.\<close>

definition paginate_cursor :: "int \<Rightarrow> string list \<Rightarrow> chat_message list \<Rightarrow> cursor_response" where
  "paginate_cursor pageSize errs allMessages =
     (let totalCount = int (length allMessages);
          more = (totalCount > pageSize);
          paginatedMessages = (if more then js_slice allMessages 0 (Some pageSize) else allMessages)
      in \<lparr> res_messages = paginatedMessages,
           res_errors = errs,
           res_hasMore = more,
           res_lastTimestamp =
             (if length paginatedMessages > 0
              then Some (timestamp (last paginatedMessages)) else None) \<rparr>)"

definition validUrls_cursor :: "live_chat_options \<Rightarrow> string list" where
  "validUrls_cursor options = filter isValidYouTubeUrl_puppeteer (opt_urls options)"

text \<open>The defaults of the destructured options: \<open>pageSize = 50\<close>, \<open>messageIds = []\<close>.\<close>

definition pageSize_cursor :: "live_chat_options \<Rightarrow> int" where
  "pageSize_cursor options = (case opt_pageSize options of None \<Rightarrow> 50 | Some n \<Rightarrow> n)"

definition messageIds_of :: "live_chat_options \<Rightarrow> string list" where
  "messageIds_of options = (case opt_messageIds options of None \<Rightarrow> [] | Some ids \<Rightarrow> ids)"

definition getLiveChat_cursor ::
  "(string \<Rightarrow> url_env) \<Rightarrow> message_cache \<Rightarrow> live_chat_options
     \<Rightarrow> cursor_response \<times> message_cache" where
  "getLiveChat_cursor env cache options =
     (let validUrls = validUrls_cursor options
      in if length validUrls = 0
         then (\<lparr> res_messages = [], res_errors = [''No valid YouTube URLs provided''],
                  res_hasMore = False, res_lastTimestamp = None \<rparr>, cache)
         else (let (ds, cache1) = syncPhase env validUrls cache;
                   (chatResults, es, cache2) = asyncPhase env ds cache1;
                   allMessages = filterMessages_cursor (messageIds_of options)
                                   (opt_after options) (concat chatResults)
               in (paginate_cursor (pageSize_cursor options) (noIdErrors ds @ es) allMessages,
                   cache2)))"


text \<open>What is left of a cache entry once the listed callbacks have cleaned the cache.\<close>

definition survives :: "(string \<Rightarrow> url_env) \<Rightarrow> string list \<Rightarrow> cache_entry option \<Rightarrow> cache_entry option" where
  "survives env urls entry =
     (case entry of
        None \<Rightarrow> None
      | Some e \<Rightarrow>
          if \<exists>url \<in> set urls. extractVideoId url \<noteq> None
                \<and> clock (env url) - lastFetched e > CACHE_EXPIRATION
          then None else Some e)"

text \<open>The cache after the callback of one URL has finished.\<close>

definition afterCallback :: "(string \<Rightarrow> url_env) \<Rightarrow> string \<Rightarrow> decision \<Rightarrow> message_cache \<Rightarrow> message_cache" where
  "afterCallback env url d cache =
     (case d of
        Fresh v now \<Rightarrow>
          (case poll (env url) of
             Inl err \<Rightarrow> cache
           | Inr (ms, cont) \<Rightarrow> updateCache cache v ms now cont)
      | _ \<Rightarrow> cache)"


subsection \<open>The snapshot \<open>getLiveChat\<close> (api/liveChat.js)\<close>









section \<open>Metadata fetcher\<close>

record video_metadata =
  md_videoId :: string
  md_videoUrl :: string
  md_title :: "string option"
  md_viewCount :: int
  md_likeCount :: int
  md_isLive :: bool
  md_channelName :: "string option"
  md_error :: "string option"

record metadata_response =
  md_list :: "video_metadata list"
  md_errors :: "string list"

text \<open>The record both modules return for a URL whose processing threw.\<close>

definition errorMetadata :: "string \<Rightarrow> string \<Rightarrow> string option \<Rightarrow> string \<Rightarrow> video_metadata" where
  "errorMetadata vid url ttl msg =
     \<lparr> md_videoId = vid, md_videoUrl = url, md_title = ttl, md_viewCount = 0,
       md_likeCount = 0, md_isLive = False, md_channelName = None, md_error = Some msg \<rparr>"

subsection \<open>\<open>getVideoMetadata\<close> in TypeScript (api/channelLiveVideos.ts, lines 692 to 769)\<close>

text \<open>
  What a URL's callback meets: the outcome of \<open>extractYouTubeTokens(url)\<close> and of the two
  POST requests of \<open>fetchVideoMetadata\<close> (primary and backup data); \<open>Inl\<close> is the error
  thrown.  \<open>'j\<close> is the JSON of the endpoints.
\<close>

record 'j ts_metadata_env =
  tokensOutcome :: "string + tokens_ts"
  requestsOutcome :: "string + ('j \<times> 'j)"

text \<open>\<open>fetchVideoMetadata\<close> of utils/directTokenExtractor.ts.\<close>

definition fetchVideoMetadata_ts ::
  "string \<Rightarrow> tokens_ts \<Rightarrow> (string + ('j \<times> 'j)) \<Rightarrow> string + ('j \<times> 'j)" where
  "fetchVideoMetadata_ts url tokens requests =
     (if apiKey tokens = [] \<or> clientVersion tokens = []
      then Inl ''Missing required tokens for metadata fetch''
      else case extractVideoId url of
             None \<Rightarrow> Inl ''Invalid YouTube URL''
           | Some vid \<Rightarrow> requests)"

text \<open>Merge data, preferring primary where available.\<close>

definition mergeBackup :: "video_metadata \<Rightarrow> video_metadata \<Rightarrow> video_metadata" where
  "mergeBackup metadata backup =
     (let m1 = (if \<not> truthyString (md_title metadata) \<and> truthyString (md_title backup)
                then metadata\<lparr> md_title := md_title backup \<rparr> else metadata);
          m2 = (if md_viewCount m1 = 0 \<and> md_viewCount backup > 0
                then m1\<lparr> md_viewCount := md_viewCount backup \<rparr> else m1);
          m3 = (if md_likeCount m2 = 0 \<and> md_likeCount backup > 0
                then m2\<lparr> md_likeCount := md_likeCount backup \<rparr> else m2);
          m4 = (if \<not> truthyString (md_channelName m3) \<and> truthyString (md_channelName backup)
                then m3\<lparr> md_channelName := md_channelName backup \<rparr> else m3)
      in if \<not> md_isLive m4 \<and> md_isLive backup then m4\<lparr> md_isLive := md_isLive backup \<rparr> else m4)"

text \<open>
  The body of the \<open>try\<close> block.  \<open>parseMetadata\<close> and \<open>extractChannelNameFromHTML\<close> are
  parameters: the first returns a record on every input because its whole body sits in
  a \<open>try\<close> whose \<open>catch\<close> returns one.
\<close>

definition tryMetadata_ts ::
  "('j \<Rightarrow> string \<Rightarrow> string \<Rightarrow> string \<Rightarrow> string option \<Rightarrow> video_metadata)
     \<Rightarrow> (string \<Rightarrow> string option) \<Rightarrow> 'j ts_metadata_env \<Rightarrow> string
     \<Rightarrow> string + video_metadata" where
  "tryMetadata_ts parseMetadata extractChannelNameFromHTML e url =
     (let vid = (case extractVideoId url of None \<Rightarrow> ''unknown'' | Some v \<Rightarrow> v)
      in case tokensOutcome e of
           Inl err \<Rightarrow> Inl err
         | Inr tokens \<Rightarrow>
             (case fetchVideoMetadata_ts url tokens (requestsOutcome e) of
                Inl err \<Rightarrow> Inl err
              | Inr (primary, backup) \<Rightarrow>
                  (let extractedChannelName = extractChannelNameFromHTML (rawHtml tokens);
                       metadata = parseMetadata primary url vid ''primary'' extractedChannelName
                   in if \<not> truthyString (md_title metadata) \<or> md_viewCount metadata = 0
                      then Inr (mergeBackup metadata
                                  (parseMetadata backup url vid ''backup'' extractedChannelName))
                      else Inr metadata)))"

text \<open>The callback with its \<open>catch\<close>: the record returned and the errors pushed.\<close>

definition processUrl_ts ::
  "('j \<Rightarrow> string \<Rightarrow> string \<Rightarrow> string \<Rightarrow> string option \<Rightarrow> video_metadata)
     \<Rightarrow> (string \<Rightarrow> string option) \<Rightarrow> (string \<Rightarrow> 'j ts_metadata_env) \<Rightarrow> string
     \<Rightarrow> video_metadata \<times> string list" where
  "processUrl_ts parseMetadata extractChannelNameFromHTML env url =
     (case tryMetadata_ts parseMetadata extractChannelNameFromHTML (env url) url of
        Inr metadata \<Rightarrow> (metadata, [])
      | Inl err \<Rightarrow>
          (errorMetadata (case extractVideoId url of None \<Rightarrow> ''unknown'' | Some v \<Rightarrow> v) url None
             (''Failed to fetch: '' @ err),
           [''Failed to fetch metadata from '' @ url @ '': '' @ err]))"

definition getVideoMetadata_ts ::
  "('j \<Rightarrow> string \<Rightarrow> string \<Rightarrow> string \<Rightarrow> string option \<Rightarrow> video_metadata)
     \<Rightarrow> (string \<Rightarrow> string option) \<Rightarrow> (string \<Rightarrow> 'j ts_metadata_env) \<Rightarrow> string list
     \<Rightarrow> metadata_response" where
  "getVideoMetadata_ts parseMetadata extractChannelNameFromHTML env urls =
     (let validUrls = filter isValidYouTubeUrl urls
      in if length validUrls = 0
         then \<lparr> md_list = [], md_errors = [''No valid YouTube URLs provided''] \<rparr>
         else (let rs = map (processUrl_ts parseMetadata extractChannelNameFromHTML env) validUrls
               in \<lparr> md_list = map fst rs, md_errors = concat (map snd rs) \<rparr>))"

subsection \<open>\<open>getVideoMetadata\<close> of api/videoMetadata.js\<close>

text \<open>
  What one pass of the loop meets: the outcome of \<open>extractYouTubeTokens(url)\<close> (tokens or
  \<open>null\<close>) and of \<open>fetchVideoMetadata(videoId)\<close> (data or \<open>null\<close>).
\<close>

datatype 'a outcome = Returns 'a | Throws string

record 'j js_metadata_env =
  tokensResult :: "tokens_js option outcome"
  playerResult :: "'j option outcome"

text \<open>
  The loop.  \<open>emptyObject\<close> is the \<open>{}\<close> that stands in for missing data; the token
  record of this module has neither \<open>pageData\<close> nor \<open>metadata\<close>.
\<close>

fun metadataLoop_js ::
  "('j \<Rightarrow> string \<Rightarrow> string \<Rightarrow> string \<Rightarrow> string option \<Rightarrow> video_metadata)
     \<Rightarrow> 'j \<Rightarrow> (string \<Rightarrow> 'j js_metadata_env) \<Rightarrow> string list
     \<Rightarrow> video_metadata list \<Rightarrow> string list \<Rightarrow> video_metadata list \<times> string list" where
  "metadataLoop_js parseMetadata emptyObject env [] metadataList errs = (metadataList, errs)"
| "metadataLoop_js parseMetadata emptyObject env (url # rest) metadataList errs =
     (if \<not> isValidYouTubeUrl url
      then metadataLoop_js parseMetadata emptyObject env rest metadataList
             (errs @ [''Invalid YouTube URL: '' @ url])
      else case extractVideoId url of
        None \<Rightarrow>
          metadataLoop_js parseMetadata emptyObject env rest metadataList
            (errs @ [''Could not extract video ID from URL: '' @ url])
      | Some vid \<Rightarrow>
          (case tokensResult (env url) of
             Throws m \<Rightarrow>
               metadataLoop_js parseMetadata emptyObject env rest
                 (metadataList @ [errorMetadata vid url (Some (''Video '' @ vid)) m])
                 (errs @ [''Error fetching metadata for video '' @ vid @ '': '' @ m])
           | Returns None \<Rightarrow>
               (case playerResult (env url) of
                  Returns (Some directMetadata) \<Rightarrow>
                    metadataLoop_js parseMetadata emptyObject env rest
                      (metadataList @ [parseMetadata directMetadata url vid ''direct'' None])
                      errs
                | _ \<Rightarrow>
                    metadataLoop_js parseMetadata emptyObject env rest metadataList
                      (errs @ [''Could not extract metadata for video: '' @ vid]))
           | Returns (Some tokens) \<Rightarrow>
               (let extractedChannelName =
                      (if tk_channelName tokens \<noteq> [] then Some (tk_channelName tokens) else None);
                    detailedMetadata =
                      (case playerResult (env url) of Returns d \<Rightarrow> d | Throws m \<Rightarrow> None);
                    primarySource =
                      (case detailedMetadata of Some d \<Rightarrow> d | None \<Rightarrow> emptyObject);
                    metadata = parseMetadata primarySource url vid ''combined'' extractedChannelName;
                    metadata' = (if \<not> truthyString (md_title metadata) \<and> tk_title tokens \<noteq> []
                                 then metadata\<lparr> md_title := Some (tk_title tokens) \<rparr>
                                 else metadata)
                in metadataLoop_js parseMetadata emptyObject env rest
                     (metadataList @ [metadata']) errs)))"

definition getVideoMetadata_js ::
  "('j \<Rightarrow> string \<Rightarrow> string \<Rightarrow> string \<Rightarrow> string option \<Rightarrow> video_metadata)
     \<Rightarrow> 'j \<Rightarrow> (string \<Rightarrow> 'j js_metadata_env) \<Rightarrow> string list \<Rightarrow> metadata_response" where
  "getVideoMetadata_js parseMetadata emptyObject env urls =
     (let (metadataList, errs) = metadataLoop_js parseMetadata emptyObject env urls [] []
      in \<lparr> md_list = metadataList, md_errors = errs \<rparr>)"

text \<open>Upstream that is out of reach: no page, no player data.\<close>

definition unreachable_js :: "string \<Rightarrow> 'j js_metadata_env" where
  "unreachable_js url = \<lparr> tokensResult = Returns None, playerResult = Returns None \<rparr>"

definition unreachable_ts :: "string \<Rightarrow> 'j ts_metadata_env" where
  "unreachable_ts url =
     \<lparr> tokensOutcome = Inl ''Failed to extract tokens from YouTube: Network Error'',
       requestsOutcome = Inl ''Network Error'' \<rparr>"

text \<open>Sample data: a message of a video with an ID and a time stamp.\<close>

definition mkMessage :: "string \<Rightarrow> string \<Rightarrow> int \<Rightarrow> chat_message" where
  "mkMessage vid i t =
     \<lparr> msg_id = i, message = ''hello'', authorName = ''viewer'', authorChannelId = ''UC1'',
       timestamp = t, userType = Regular,
       sourceVideoUrl = ''https://www.youtube.com/watch?v='' @ vid, sourceVideoId = vid \<rparr>"










text \<open>
  A cache with an entry fetched at time 0 and one fetched at time 990000, a clock that
  reads 1000000, and upstream requests that fail.
\<close>

definition agedCache :: message_cache where
  "agedCache =
     [''oldoldoldol'' \<mapsto> \<lparr> messages = [mkMessage ''oldoldoldol'' ''o1'' 0], lastFetched = 0,
                          continuation = None \<rparr>,
      ''newnewnewne'' \<mapsto> \<lparr> messages = [mkMessage ''newnewnewne'' ''n1'' 990000],
                          lastFetched = 990000, continuation = None \<rparr>]"

definition lateEnv :: "string \<Rightarrow> url_env" where
  "lateEnv url = \<lparr> clock = 1000000, poll = Inl ''offline'' \<rparr>"


definition requestFor :: "string list \<Rightarrow> live_chat_options" where
  "requestFor us = \<lparr> opt_urls = us, opt_pageSize = None, opt_after = None, opt_messageIds = None \<rparr>"

section \<open>Theorems\<close>

subsection \<open>Video IDs\<close>

lemma extractVideoId_examples:
  "extractVideoId ''https://www.youtube.com/watch?v=dQw4w9WgXcQ'' = Some ''dQw4w9WgXcQ''"
  "extractVideoId ''https://youtu.be/dQw4w9WgXcQ?t=42'' = Some ''dQw4w9WgXcQ''"
  "extractVideoId ''https://www.youtube.com/embed/dQw4w9WgXcQ'' = Some ''dQw4w9WgXcQ''"
  "extractVideoId_puppeteer ''https://www.youtube.com/watch?v=dQw4w9WgXcQ'' = Some ''dQw4w9WgXcQ''"
  "extractVideoId_puppeteer ''https://youtu.be/vQw4w9WgXcQ'' = Some ''vQw4w9WgXcQ''"
  "extractVideoId_puppeteer ''https://www.youtube.com/embed/dQw4w9WgXcQ'' = Some ''dQw4w9WgXcQ''"
  "isValidYouTubeUrl ''https://www.youtube.com/watch?v=dQw4w9WgXcQ''"
  "\<not> isValidYouTubeUrl ''https://www.youtube.com/live/dQw4w9WgXcQ''"
  "isValidYouTubeUrl_puppeteer ''https://youtu.be/vQw4w9WgXcQ''"
  "\<not> isValidYouTubeUrl_puppeteer ''https://www.youtube.com/live/dQw4w9WgXcQ''"
  by code_simp+

text \<open>
  C1.  For the URL shapes watch?v=ID, youtu.be/ID, /live/ID and /embed/ID with an
  11-character URL-safe ID, \<open>extractVideoId\<close> should return that ID.  Both parsers
  return nothing for a /live/ID URL, and the parser of utils/directTokenExtractor also
  returns nothing for a youtu.be/ID or /embed/ID URL whose ID starts with the letter v
  (the optional \<open>v\<close> of the pattern consumes it, leaving ten characters).
\<close>

theorem C1_live_url_not_extracted:
  "extractVideoId ''https://www.youtube.com/live/dQw4w9WgXcQ'' = None
   \<and> extractVideoId_puppeteer ''https://www.youtube.com/live/dQw4w9WgXcQ'' = None
   \<and> extractVideoId ''https://youtu.be/vQw4w9WgXcQ'' = None
   \<and> extractVideoId ''https://www.youtube.com/embed/vQw4w9WgXcQ'' = None"
  by code_simp

subsection \<open>Badges\<close>

lemma scanBadges_owner:
  "Some r \<in> set bs \<Longrightarrow> js_includes (toLowerCase (badgeText r)) ''owner''
     \<Longrightarrow> scanBadges ut bs = Owner"
proof (induction ut bs rule: scanBadges.induct)
  case (1 ut)
  then show ?case by simp
next
  case (2 ut bs)
  then show ?case by simp
next
  case (3 ut r' bs)
  then show ?case by (auto simp: Let_def)
qed

lemma badge_examples:
  "formatChatMessages_userType (Some [tooltipBadge ''Member (6 months)'', tooltipBadge ''Owner'']) = Owner"
  "formatChatMessages_userType (Some [tooltipBadge ''Moderator'']) = Moderator"
  "formatChatMessages_userType (Some []) = Regular"
  "formatChatMessages_userType None = Regular"
  "extractAuthorInfo_userType (Some [iconBadge ''MEMBER'', iconBadge ''OWNER'']) = Owner"
  "extractAuthorInfo_userType (Some [iconBadge ''MODERATOR'']) = Moderator"
  "extractAuthorInfo_userType (Some []) = Regular"
  by code_simp+

text \<open>
  C4.  The role should be owner if any badge says owner, otherwise moderator if any
  badge says moderator, otherwise member, otherwise regular, whatever the order of the
  badges.  In unnamed/part_004 a member badge after a moderator badge gives
  member; in utils/formatters.js the last badge with a known icon type decides, so a
  moderator badge after an owner badge gives moderator.
\<close>

theorem C4_later_badge_overrides:
  "formatChatMessages_userType
     (Some [tooltipBadge ''Moderator'', tooltipBadge ''Member (6 months)'']) = Member
   \<and> extractAuthorInfo_userType (Some [iconBadge ''OWNER'', iconBadge ''MODERATOR'']) = Moderator
   \<and> extractAuthorInfo_userType (Some [iconBadge ''OWNER'', iconBadge ''MEMBER'']) = Member"
  by code_simp

subsection \<open>Chat poller\<close>






subsection \<open>Token cache\<close>

text \<open>The JavaScript extractor never stores an empty continuation token.\<close>

lemma extractYouTubeTokens_js_nonempty:
  assumes "\<And>k t. tokenCache k = Some t \<Longrightarrow> tk_continuation t \<noteq> []"
    and "snd (extractYouTubeTokens_js tokenCache now stamp url fetch) k = Some t"
  shows "tk_continuation t \<noteq> []"
  using assms
  by (auto simp: extractYouTubeTokens_js_def Let_def
      split: option.splits if_splits page_fetch.splits)

text \<open>
  C6.  A token set with an empty continuation token should never be stored in the token
  cache.  The extractor of utils/directTokenExtractor.js returns before storing; the
  extractors of utils/directTokenExtractor.ts and scraping/puppeteer.ts store the result
  whatever the token is, so a page without live chat leaves an entry with an empty
  continuation token.
\<close>

theorem C6_empty_token_cached:
  "map_option continuationToken
     (snd (extractYouTubeTokens_ts Map.empty 1000 1001
             ''https://www.youtube.com/watch?v=dQw4w9WgXcQ'' (Fetched pageWithoutChat))
        ''https://www.youtube.com/watch?v=dQw4w9WgXcQ'') = Some []
   \<and> map_option continuationToken
     (snd (extractYouTubeTokens_puppeteer Map.empty 1000 1001 False
             ''https://www.youtube.com/watch?v=dQw4w9WgXcQ'' (Fetched pageWithoutChat))
        ''https://www.youtube.com/watch?v=dQw4w9WgXcQ'') = Some []
   \<and> snd (extractYouTubeTokens_js Map.empty 1000 1001
             ''https://www.youtube.com/watch?v=dQw4w9WgXcQ'' (Fetched pageWithoutChat))
        ''https://www.youtube.com/watch?v=dQw4w9WgXcQ'' = None"
  by (simp add: extractYouTubeTokens_ts_def extractYouTubeTokens_puppeteer_def
      extractYouTubeTokens_js_def tokenResult_def pageWithoutChat_def truthyString_def
      Let_def)

subsection \<open>Message cache: the merge step\<close>






















subsection \<open>Filtering by cursor and exclusion list\<close>








subsection \<open>Pagination\<close>














subsection \<open>Cache clean-up of the cursor-based call\<close>

lemma syncPhase_step:
  "snd (syncPhase env (url # rest) cache)
     = snd (syncPhase env rest
              (case extractVideoId url of
                 None \<Rightarrow> cache
               | Some v \<Rightarrow> cleanupExpired (clock (env url)) cache))"
  by (simp add: Let_def split: option.split prod.split)

lemma survives_step:
  "survives env rest
     ((case extractVideoId url of
         None \<Rightarrow> cache
       | Some v \<Rightarrow> cleanupExpired (clock (env url)) cache) k)
     = survives env (url # rest) (cache k)"
  by (cases "extractVideoId url"; cases "cache k")
     (auto simp: survives_def cleanupExpired_def)

lemma syncPhase_cache: "snd (syncPhase env urls cache) k = survives env urls (cache k)"
proof (induction urls arbitrary: cache)
  case Nil
  then show ?case by (simp add: survives_def split: option.split)
next
  case (Cons url rest)
  show ?case
    unfolding syncPhase_step Cons.IH survives_step ..
qed

lemma syncPhase_fresh:
  "(url, Fresh v now) \<in> set (fst (syncPhase env urls cache))
     \<Longrightarrow> url \<in> set urls \<and> extractVideoId url = Some v"
proof (induction urls arbitrary: cache)
  case Nil
  then show ?case by simp
next
  case (Cons u rest)
  show ?case
  proof (cases "extractVideoId u")
    case None
    then have "(url, Fresh v now) \<in> set (fst (syncPhase env rest cache))"
      using Cons.prems by (simp add: Let_def split: prod.splits)
    then show ?thesis using Cons.IH by auto
  next
    case (Some w)
    then have "(url = u \<and> w = v) \<or>
               (url, Fresh v now)
                 \<in> set (fst (syncPhase env rest (cleanupExpired (clock (env u)) cache)))"
      using Cons.prems by (auto simp: Let_def split: prod.splits option.splits if_splits)
    then show ?thesis using Cons.IH Some by auto
  qed
qed

lemma updateCache_other: "k \<noteq> v \<Longrightarrow> updateCache cache v ms now cont k = cache k"
  by (simp add: updateCache_def split: option.splits)

lemma asyncPhase_step:
  "snd (snd (asyncPhase env ((url, d) # rest) cache))
     = snd (snd (asyncPhase env rest (afterCallback env url d cache)))"
  by (cases d) (simp_all add: afterCallback_def Let_def split: sum.split prod.split)

lemma asyncPhase_frame:
  "(\<And>url v now. (url, Fresh v now) \<in> set ds \<Longrightarrow> v \<noteq> k)
     \<Longrightarrow> snd (snd (asyncPhase env ds cache)) k = cache k"
proof (induction ds arbitrary: cache)
  case Nil
  then show ?case by simp
next
  case (Cons p rest)
  obtain url d where p: "p = (url, d)" by (cases p)
  have "afterCallback env url d cache k = cache k"
  proof (cases d)
    case (Fresh v now)
    then have "v \<noteq> k" using Cons.prems [of url v now] p by simp
    then show ?thesis
      using Fresh by (simp add: afterCallback_def updateCache_other split: sum.split prod.split)
  qed (simp_all add: afterCallback_def)
  moreover have "snd (snd (asyncPhase env rest (afterCallback env url d cache))) k
                   = afterCallback env url d cache k"
    using Cons.prems by (intro Cons.IH) auto
  ultimately show ?case
    unfolding p asyncPhase_step by simp
qed


text \<open>
  C10 (as stated).  Every call should first delete the expired entries.  A call whose
  only URL passes validation but yields no video ID (an ID that starts with v behind
  youtu.be/), and a call without URLs, leave an entry that is 1000 seconds old in the
  cache.
\<close>

theorem C10_every_call_counterexample:
  "map_option lastFetched
     (snd (getLiveChat_cursor lateEnv agedCache (requestFor [''https://youtu.be/vQw4w9WgXcQ'']))
        ''oldoldoldol'') = Some 0
   \<and> isValidYouTubeUrl_puppeteer ''https://youtu.be/vQw4w9WgXcQ''
   \<and> clock (lateEnv ''https://youtu.be/vQw4w9WgXcQ'') - 0 > CACHE_EXPIRATION
   \<and> map_option lastFetched
     (snd (getLiveChat_cursor lateEnv agedCache (requestFor [])) ''oldoldoldol'') = Some 0"
  by code_simp


text \<open>
  C10 (amended).  In the cursor-based \<open>getLiveChat\<close>, the callback of every valid URL
  whose video ID is extracted deletes, before any fetch, every cache entry whose
  \<open>lastFetched\<close> is more than the 5-minute expiration older than the clock it reads,
  whatever video the entry belongs to.  So when the synchronous part of a call ends,
  an entry is gone if some such callback found it expired and is unchanged otherwise;
  for a video that is not requested this is also its state when the call returns.  A
  call in which no URL gets that far deletes nothing.
\<close>

theorem C10_cleanup_reaches_other_videos:
  "snd (syncPhase env (validUrls_cursor options) cache) k
      = survives env (validUrls_cursor options) (cache k)
   \<and> (Some k \<notin> extractVideoId ` set (validUrls_cursor options) \<longrightarrow>
        snd (getLiveChat_cursor env cache options) k
          = survives env (validUrls_cursor options) (cache k))"
proof -
  have a: "snd (syncPhase env (validUrls_cursor options) cache) k
      = survives env (validUrls_cursor options) (cache k)"
    by (rule syncPhase_cache)
  have b: "snd (getLiveChat_cursor env cache options) k
          = survives env (validUrls_cursor options) (cache k)"
    if h: "Some k \<notin> extractVideoId ` set (validUrls_cursor options)"
  proof (cases "validUrls_cursor options = []")
    case True
    then show ?thesis
      by (simp add: getLiveChat_cursor_def survives_def split: option.splits)
  next
    case False
    obtain ds cache1 where s: "syncPhase env (validUrls_cursor options) cache = (ds, cache1)"
      by (cases "syncPhase env (validUrls_cursor options) cache")
    have fr: "\<And>url v now. (url, Fresh v now) \<in> set ds \<Longrightarrow> v \<noteq> k"
    proof
      fix url v now assume "(url, Fresh v now) \<in> set ds" "v = k"
      then have "url \<in> set (validUrls_cursor options) \<and> extractVideoId url = Some k"
        using syncPhase_fresh [of url v now env "validUrls_cursor options" cache] s by simp
      then show False using h by (metis image_eqI)
    qed
    have "snd (getLiveChat_cursor env cache options) k = snd (snd (asyncPhase env ds cache1)) k"
      using False s by (simp add: getLiveChat_cursor_def Let_def split: prod.splits)
    also have "\<dots> = cache1 k"
      using fr by (rule asyncPhase_frame)
    also have "\<dots> = survives env (validUrls_cursor options) (cache k)"
      using syncPhase_cache [of env "validUrls_cursor options" cache k] s by simp
    finally show ?thesis .
  qed
  show ?thesis using a b by blast
qed


text \<open>A call for one video, and the entries of two other videos.\<close>

theorem C10_cleanup_reaches_other_videos_witness:
  "snd (getLiveChat_cursor lateEnv agedCache
          (requestFor [''https://www.youtube.com/watch?v=dQw4w9WgXcQ''])) ''oldoldoldol'' = None
   \<and> snd (getLiveChat_cursor lateEnv agedCache
          (requestFor [''https://www.youtube.com/watch?v=dQw4w9WgXcQ''])) ''newnewnewne''
       = agedCache ''newnewnewne''
   \<and> agedCache ''oldoldoldol'' \<noteq> None"
proof -
  have v: "validUrls_cursor (requestFor [''https://www.youtube.com/watch?v=dQw4w9WgXcQ''])
             = [''https://www.youtube.com/watch?v=dQw4w9WgXcQ'']"
    by code_simp
  have x: "extractVideoId ''https://www.youtube.com/watch?v=dQw4w9WgXcQ'' = Some ''dQw4w9WgXcQ''"
    by code_simp
  have o: "survives lateEnv [''https://www.youtube.com/watch?v=dQw4w9WgXcQ'']
             (agedCache ''oldoldoldol'') = None"
    by (simp add: survives_def agedCache_def lateEnv_def CACHE_EXPIRATION_def x)
  have n: "survives lateEnv [''https://www.youtube.com/watch?v=dQw4w9WgXcQ'']
             (agedCache ''newnewnewne'') = agedCache ''newnewnewne''"
    by (simp add: survives_def agedCache_def lateEnv_def CACHE_EXPIRATION_def x)
  have a: "agedCache ''oldoldoldol'' \<noteq> None"
    by (simp add: agedCache_def)
  show ?thesis
    using C10_cleanup_reaches_other_videos [of lateEnv
        "requestFor [''https://www.youtube.com/watch?v=dQw4w9WgXcQ'']" agedCache "''oldoldoldol''"]
      C10_cleanup_reaches_other_videos [of lateEnv
        "requestFor [''https://www.youtube.com/watch?v=dQw4w9WgXcQ'']" agedCache "''newnewnewne''"]
      o n a
    by (simp add: v x)
qed

subsection \<open>Metadata on failure\<close>

lemma C8_valid: "isValidYouTubeUrl ''https://www.youtube.com/watch?v=dQw4w9WgXcQ''"
  "extractVideoId ''https://www.youtube.com/watch?v=dQw4w9WgXcQ'' = Some ''dQw4w9WgXcQ''"
  by code_simp+

lemma getVideoMetadata_ts_error_record:
  assumes "isValidYouTubeUrl url" "url \<in> set urls"
    and "tryMetadata_ts parseMetadata chan (env url) url = Inl err"
  shows "\<exists>m \<in> set (md_list (getVideoMetadata_ts parseMetadata chan env urls)).
           md_videoUrl m = url \<and> md_viewCount m = 0 \<and> md_likeCount m = 0
           \<and> md_error m = Some (''Failed to fetch: '' @ err)"
proof -
  have v: "url \<in> set (filter isValidYouTubeUrl urls)"
    using assms by simp
  have n: "filter isValidYouTubeUrl urls \<noteq> []"
    using v by (metis emptyE empty_set)
  have a: "fst (processUrl_ts parseMetadata chan env url)
          \<in> set (md_list (getVideoMetadata_ts parseMetadata chan env urls))"
    using v n by (simp add: getVideoMetadata_ts_def Let_def)
  have b: "fst (processUrl_ts parseMetadata chan env url)
          = errorMetadata (case extractVideoId url of None \<Rightarrow> ''unknown'' | Some v \<Rightarrow> v) url None
             (''Failed to fetch: '' @ err)"
    using assms(3) by (simp add: processUrl_ts_def)
  show ?thesis
    by (rule bexI [OF _ a]) (simp add: b errorMetadata_def)
qed

lemma tryMetadata_ts_tokens_fail:
  "tokensOutcome e = Inl err \<Longrightarrow> tryMetadata_ts parseMetadata chan e url = Inl err"
  by (simp add: tryMetadata_ts_def)


text \<open>
  C8.  The metadata operation should never raise and should return, on total failure, a
  record for the video with zero counts and a populated \<open>error\<close>.  The TypeScript
  module does; api/videoMetadata.js returns no record at all when neither the tokens
  nor the player data can be fetched, only an entry in \<open>errors\<close>.
\<close>

theorem C8_failure_without_record:
  "getVideoMetadata_js parseMetadata emptyObject unreachable_js
      [''https://www.youtube.com/watch?v=dQw4w9WgXcQ'']
     = \<lparr> md_list = [],
         md_errors = [''Could not extract metadata for video: dQw4w9WgXcQ''] \<rparr>
   \<and> map md_error (md_list (getVideoMetadata_ts parseMetadata' chan unreachable_ts
      [''https://www.youtube.com/watch?v=dQw4w9WgXcQ'']))
     = [Some ''Failed to fetch: Failed to extract tokens from YouTube: Network Error'']"
  by (simp add: getVideoMetadata_js_def unreachable_js_def C8_valid getVideoMetadata_ts_def
      processUrl_ts_def tryMetadata_ts_def unreachable_ts_def errorMetadata_def)

subsection \<open>Like-count encodings\<close>

lemma parseInt_examples:
  "parseInt ''1234'' = Num 1234"
  "parseInt ''19'' = Num 19"
  "parseInt '''' = NaN"
  by (simp_all add: parseInt_def isWhiteSpace_def isDigit_def digitsToInt_def digitValue_def)

text \<open>
  C9.  The like-count parser accepts the three upstream encodings: the exact integer
  1234 (as a number or as a decimal string) gives 1234, the comma-formatted string
  "1,234" gives 1234, and the abbreviated string "19K" gives 19000, the base number
  times 1000.
\<close>

theorem C9_like_count_encodings:
  "likeCountFromFrameworkUpdates 0
     (Some [Some (noEntity\<lparr> likeCountIfIndifferentNumber := Some (JNumber 1234) \<rparr>)]) = 1234
   \<and> likeCountFromFrameworkUpdates 0
     (Some [Some (noEntity\<lparr> likeCountIfIndifferentNumber := Some (JString ''1234'') \<rparr>)]) = 1234
   \<and> likeCountFromFrameworkUpdates 0
     (Some [Some (noEntity\<lparr> expandedLikeCountIfIndifferent := Some ''1,234'' \<rparr>)]) = 1234
   \<and> likeCountFromFrameworkUpdates 0
     (Some [Some (noEntity\<lparr> likeCountIfIndifferent := Some ''19K'' \<rparr>)]) = 19000"
  by (simp add: likeCountFromFrameworkUpdates_def entityLikeCount_def noEntity_def
      truthyValue_def truthyString_def parseIntValue_def parseInt_def keepDigits_def
      isWhiteSpace_def isDigit_def digitsToInt_def digitValue_def js_gt_def js_times_def
      isNaN_def)

end
